theory Spec2Isabelle
  imports Main "HOL-Library.Sublist"
begin

section \<open>JavaScript values and strings\<close>

text \<open>
  Strings are character lists. A JavaScript value is truthy unless it is \<open>undefined\<close>,
  \<open>null\<close>, \<open>false\<close>, \<open>0\<close> or the empty string. Header and query-parameter values are
  \<open>string option\<close>: \<open>None\<close> is \<open>undefined\<close>.
\<close>

definition truthy_str :: "string option \<Rightarrow> bool" where
  "truthy_str v = (case v of None \<Rightarrow> False | Some s \<Rightarrow> s \<noteq> [])"

text \<open>\<open>a || b\<close> on optional strings: the left operand when it is truthy, else the right one.\<close>

definition js_or :: "string option \<Rightarrow> string option \<Rightarrow> string option" where
  "js_or a b = (if truthy_str a then a else b)"

text \<open>\<open>s.replace(pat, rep)\<close> with a string pattern: the first occurrence only.\<close>

fun replace_first :: "string \<Rightarrow> string \<Rightarrow> string \<Rightarrow> string" where
  "replace_first pat rep [] = (if pat = [] then rep else [])"
| "replace_first pat rep (c # cs) =
     (if prefix pat (c # cs) then rep @ drop (length pat) (c # cs)
      else c # replace_first pat rep cs)"

text \<open>Decimal rendering of a number inside a template literal.\<close>

fun string_of_nat :: "nat \<Rightarrow> string" where
  "string_of_nat n =
     (if n < 10 then [char_of (48 + n)]
      else string_of_nat (n div 10) @ [char_of (48 + n mod 10)])"

definition string_of_int :: "int \<Rightarrow> string" where
  "string_of_int i = (if i < 0 then CHR ''-'' # string_of_nat (nat (- i)) else string_of_nat (nat i))"

text \<open>
  Argument payloads are JSON values (\<open>any\<close> in the source). Numbers are carried as
  integers: the code only tests their type and truthiness.
\<close>

datatype js_value =
    JUndefined
  | JNull
  | JBool bool
  | JNum int
  | JStr string
  | JArr "js_value list"
  | JObj "(string \<times> js_value) list"

text \<open>
  Thrown values, as the code sees them: an instance of \<open>Error\<close> (or of a subclass such as
  \<open>TypeError\<close>) with its message, or a value that is not an instance of \<open>Error\<close>. The
  code defines no error classes of its own.
\<close>

datatype js_error = JsError string | NonError

text \<open>\<open>error instanceof Error ? error.message : 'Unknown error'\<close>\<close>

fun error_text :: "js_error \<Rightarrow> string" where
  "error_text (JsError m) = m"
| "error_text NonError = ''Unknown error''"

section \<open>Access guard (middleware/auth.ts)\<close>

record request =
  req_path :: string
  hdr_x_api_key :: "string option"
  hdr_authorization :: "string option"
  hdr_x_mcp_session_id :: "string option"
  query_apiKey :: "string option"
  query_sessionId :: "string option"

record response =
  res_status :: nat
  res_error :: string
  res_message :: string
  res_retryAfter :: "int option"

datatype outcome = Next | Respond response

text \<open>
  \<open>apiKeyAuth\<close>: the health path is let through first; with no configured key every
  request is let through; otherwise the presented key is the first truthy one of the
  \<open>x-api-key\<close> header, the \<open>authorization\<close> header with \<open>'Bearer '\<close> removed, and the
  \<open>apiKey\<close> query parameter.
\<close>

definition auth_requestKey :: "request \<Rightarrow> string option" where
  "auth_requestKey req =
     js_or (hdr_x_api_key req)
       (js_or (map_option (replace_first ''Bearer '' '''') (hdr_authorization req))
          (query_apiKey req))"

definition apiKeyAuth :: "string option \<Rightarrow> request \<Rightarrow> outcome" where
  "apiKeyAuth API_KEY req =
     (if req_path req = ''/health'' then Next
      else if \<not> truthy_str API_KEY then Next
      else let requestKey = auth_requestKey req in
        if \<not> truthy_str requestKey then
          Respond \<lparr>res_status = 401, res_error = ''Unauthorized'',
            res_message = ''API key required. Provide via x-api-key header, Authorization header, or apiKey query parameter.'',
            res_retryAfter = None\<rparr>
        else if requestKey \<noteq> API_KEY then
          Respond \<lparr>res_status = 403, res_error = ''Forbidden'',
            res_message = ''Invalid API key'', res_retryAfter = None\<rparr>
        else Next)"

text \<open>
  \<open>rateLimiter\<close>: the module-level map \<open>requestCounts\<close> is passed in and returned.
  The counting key is the first truthy one of the \<open>x-api-key\<close> header and the
  \<open>authorization\<close> header with \<open>'Bearer '\<close> removed, else \<open>'anonymous'\<close>.
  \<open>Math.ceil(d / 1000)\<close> on an integer \<open>d\<close> is \<open>- ((- d) div 1000)\<close>.
\<close>

record rate_record =
  rr_count :: int
  rr_resetTime :: int

type_synonym request_counts = "string \<rightharpoonup> rate_record"

definition rate_key :: "request \<Rightarrow> string" where
  "rate_key req =
     (case js_or (hdr_x_api_key req)
             (js_or (map_option (replace_first ''Bearer '' '''') (hdr_authorization req))
                (Some ''anonymous'')) of
        Some k \<Rightarrow> k
      | None \<Rightarrow> ''anonymous'')"

definition rateLimiter ::
  "int \<Rightarrow> int \<Rightarrow> request_counts \<Rightarrow> int \<Rightarrow> request \<Rightarrow> outcome \<times> request_counts" where
  "rateLimiter maxRequests windowMs requestCounts now req =
     (let apiKey = rate_key req in
      case requestCounts apiKey of
        None \<Rightarrow>
          (Next, requestCounts(apiKey \<mapsto> \<lparr>rr_count = 1, rr_resetTime = now + windowMs\<rparr>))
      | Some record \<Rightarrow>
          if now > rr_resetTime record then
            (Next, requestCounts(apiKey \<mapsto> \<lparr>rr_count = 1, rr_resetTime = now + windowMs\<rparr>))
          else if rr_count record \<ge> maxRequests then
            (let resetIn = - ((- (rr_resetTime record - now)) div 1000) in
             (Respond \<lparr>res_status = 429, res_error = ''Too Many Requests'',
                res_message = ''Rate limit exceeded. Try again in '' @ string_of_int resetIn @ '' seconds.'',
                res_retryAfter = Some resetIn\<rparr>,
              requestCounts))
          else (Next, requestCounts(apiKey \<mapsto> record\<lparr>rr_count := rr_count record + 1\<rparr>)))"

text \<open>
  The middleware chain of the SSE server: with \<open>API_KEY\<close> set, \<open>apiKeyAuth\<close> runs and,
  when \<open>ENABLE_RATE_LIMITING\<close> is \<open>'true'\<close>, the rate limiter after it; with no
  \<open>API_KEY\<close> neither is installed. \<open>RATE_LIMIT_MAX\<close> and \<open>RATE_LIMIT_WINDOW_MS\<close> are held
  as the integers \<open>parseInt\<close> gave at start-up.
\<close>

record guard_config =
  cfg_API_KEY :: "string option"
  cfg_ENABLE_RATE_LIMITING :: "string option"
  cfg_maxRequests :: int
  cfg_windowMs :: int

definition access_guard ::
  "guard_config \<Rightarrow> request_counts \<Rightarrow> int \<Rightarrow> request \<Rightarrow> outcome \<times> request_counts" where
  "access_guard cfg requestCounts now req =
     (if truthy_str (cfg_API_KEY cfg) then
        (case apiKeyAuth (cfg_API_KEY cfg) req of
           Respond r \<Rightarrow> (Respond r, requestCounts)
         | Next \<Rightarrow>
             if cfg_ENABLE_RATE_LIMITING cfg = Some ''true''
             then rateLimiter (cfg_maxRequests cfg) (cfg_windowMs cfg) requestCounts now req
             else (Next, requestCounts))
      else (Next, requestCounts))"

section \<open>Connection manager\<close>

text \<open>
  The three module-level variables and the outside world they act on. The world is the
  list of network events so far: a handle is live (its \<open>connected\<close> flag is set) from its
  successful open until its successful close or until the connection is lost. In a
  call that no other call overlaps, a successful \<open>sql.connect\<close> yields a handle that
  did not exist before.
\<close>

type_synonym handle = nat

datatype date = Date int | InvalidDate

text \<open>\<open>new Date(t)\<close>: a time value beyond 8.64e15 ms gives an invalid date.\<close>

definition newDate :: "int \<Rightarrow> date" where
  "newDate t = (if \<bar>t\<bar> \<le> 8640000000000000 then Date t else InvalidDate)"

text \<open>\<open>a > b\<close> on dates compares the time values; an invalid date is NaN.\<close>

fun date_gt :: "date \<Rightarrow> date \<Rightarrow> bool" where
  "date_gt (Date a) (Date b) = (a > b)"
| "date_gt _ _ = False"

datatype net_event =
    GetToken
  | CloseOk handle
  | CloseFailed handle
  | ConnectOk handle
  | ConnectFailed
  | ConnectionLost handle
  | Query string "(string \<times> js_value) list"

fun apply_event :: "handle set \<Rightarrow> net_event \<Rightarrow> handle set" where
  "apply_event L (ConnectOk h) = insert h L"
| "apply_event L (CloseOk h) = L - {h}"
| "apply_event L (ConnectionLost h) = L - {h}"
| "apply_event L _ = L"

definition live_of :: "net_event list \<Rightarrow> handle set" where
  "live_of tr = foldl apply_event {} tr"

record conn_state =
  globalSqlPool :: "handle option"
  globalAccessToken :: "string option"
  globalTokenExpiresOn :: "date option"
  net_trace :: "net_event list"

definition init_conn :: conn_state where
  "init_conn = \<lparr>globalSqlPool = None, globalAccessToken = None,
     globalTokenExpiresOn = None, net_trace = []\<rparr>"

definition log_event :: "net_event \<Rightarrow> conn_state \<Rightarrow> conn_state" where
  "log_event e s = s\<lparr>net_trace := net_trace s @ [e]\<rparr>"

text \<open>\<open>globalSqlPool && globalSqlPool.connected\<close>\<close>

definition pool_connected :: "conn_state \<Rightarrow> bool" where
  "pool_connected s =
     (case globalSqlPool s of None \<Rightarrow> False | Some h \<Rightarrow> h \<in> live_of (net_trace s))"

text \<open>
  Values read from \<open>process.env\<close> when a configuration is built; the trust flag and the
  timeout are held as the built-ins \<open>toLowerCase\<close> and \<open>parseInt\<close> gave them.
\<close>

record settings =
  SERVER_NAME :: "string option"
  DATABASE_NAME :: "string option"
  TRUST_SERVER_CERTIFICATE_true :: bool
  CONNECTION_TIMEOUT_secs :: int

record sql_config =
  cfg_server :: "string option"
  cfg_database :: "string option"
  cfg_encrypt :: bool
  cfg_trustServerCertificate :: bool
  cfg_token :: "string option"
  cfg_connectionTimeout :: int

record access_token =
  at_token :: string
  at_expiresOnTimestamp :: int

text \<open>
  What the outside world answers during one call of \<open>ensureSqlConnection\<close>: the clock
  at the validity check and inside \<open>createSqlConfig\<close>, the token provider (which may
  fail, or resolve to \<open>null\<close>), the close of the old handle and the open of the new one.
\<close>

record acquire_env =
  env_now :: int
  env_getToken :: "js_error + access_token option"
  env_now_config :: int
  env_close :: "js_error + unit"
  env_connect :: "sql_config \<Rightarrow> js_error + unit"

definition createSqlConfig ::
  "settings \<Rightarrow> int \<Rightarrow> js_error + access_token option
     \<Rightarrow> js_error + (sql_config \<times> string option \<times> date)" where
  "createSqlConfig st now tokenResult =
     (case tokenResult of
        Inl e \<Rightarrow> Inl e
      | Inr accessToken \<Rightarrow>
          Inr (\<lparr>cfg_server = SERVER_NAME st, cfg_database = DATABASE_NAME st,
                 cfg_encrypt = True,
                 cfg_trustServerCertificate = TRUST_SERVER_CERTIFICATE_true st,
                 cfg_token = map_option at_token accessToken,
                 cfg_connectionTimeout = CONNECTION_TIMEOUT_secs st * 1000\<rparr>,
               map_option at_token accessToken,
               (case accessToken of
                  Some a \<Rightarrow>
                    if at_expiresOnTimestamp a \<noteq> 0 then newDate (at_expiresOnTimestamp a)
                    else newDate (now + 30 * 60 * 1000)
                | None \<Rightarrow> newDate (now + 30 * 60 * 1000))))"

text \<open>The condition of the early return.\<close>

definition token_fresh :: "int \<Rightarrow> conn_state \<Rightarrow> bool" where
  "token_fresh now s =
     (pool_connected s \<and> truthy_str (globalAccessToken s) \<and>
      (case globalTokenExpiresOn s of
         None \<Rightarrow> False
       | Some d \<Rightarrow> date_gt d (newDate (now + 2 * 60 * 1000))))"

text \<open>\<open>if (globalSqlPool && globalSqlPool.connected) await globalSqlPool.close()\<close>\<close>

definition close_old :: "acquire_env \<Rightarrow> conn_state \<Rightarrow> (js_error + unit) \<times> conn_state" where
  "close_old env s =
     (case globalSqlPool s of
        None \<Rightarrow> (Inr (), s)
      | Some h \<Rightarrow>
          if h \<in> live_of (net_trace s) then
            (case env_close env of
               Inl e \<Rightarrow> (Inl e, log_event (CloseFailed h) s)
             | Inr u \<Rightarrow> (Inr (), log_event (CloseOk h) s))
          else (Inr (), s))"

text \<open>\<open>globalSqlPool = await sql.connect(config)\<close>\<close>

definition open_new :: "acquire_env \<Rightarrow> sql_config \<Rightarrow> conn_state \<Rightarrow> (js_error + unit) \<times> conn_state" where
  "open_new env config s =
     (case env_connect env config of
        Inl e \<Rightarrow> (Inl e, log_event ConnectFailed s)
      | Inr u \<Rightarrow>
          (let h = length (net_trace s)
           in (Inr (), log_event (ConnectOk h) (s\<lparr>globalSqlPool := Some h\<rparr>))))"

definition ensureSqlConnection ::
  "settings \<Rightarrow> acquire_env \<Rightarrow> conn_state \<Rightarrow> (js_error + unit) \<times> conn_state" where
  "ensureSqlConnection st env s =
     (if token_fresh (env_now env) s then (Inr (), s)
      else
        (let s0 = log_event GetToken s in
         case createSqlConfig st (env_now_config env) (env_getToken env) of
           Inl e \<Rightarrow> (Inl e, s0)
         | Inr (config, token, expiresOn) \<Rightarrow>
             (let s1 = s0\<lparr>globalAccessToken := token, globalTokenExpiresOn := Some expiresOn\<rparr>
              in case close_old env s1 of
                   (Inl e, s2) \<Rightarrow> (Inl e, s2)
                 | (Inr u, s2) \<Rightarrow> open_new env config s2)))"


subsection \<open>Suspension points\<close>

text \<open>
  \<open>ensureSqlConnection\<close> is an \<open>async\<close> function: it gives up control at each \<open>await\<close>.
  A task is a call suspended at such a point; a resolution is what the task resumes
  with. The steps below are the two stretches of code that run without interruption
  before the call hands over to the driver: from the start of the call to the token
  request, and from the arrival of the token to the close or the open that the call
  then awaits. What the driver does from there on is described for calls that do
  not overlap, by \<open>ensureSqlConnection\<close> above.
\<close>

datatype task =
    AtStart
  | AwaitToken
  | AwaitClose handle sql_config
  | AwaitConnect sql_config
  | Finished "js_error + unit"

datatype resolution =
    Begin int
  | TokenResolved "js_error + access_token option" int

fun task_step :: "settings \<Rightarrow> resolution \<Rightarrow> task \<Rightarrow> conn_state \<Rightarrow> task \<times> conn_state" where
  "task_step st (Begin now) AtStart s =
     (if token_fresh now s then (Finished (Inr ()), s)
      else (AwaitToken, log_event GetToken s))"
| "task_step st (TokenResolved r now) AwaitToken s =
     (case createSqlConfig st now r of
        Inl e \<Rightarrow> (Finished (Inl e), s)
      | Inr (config, token, expiresOn) \<Rightarrow>
          (let s1 = s\<lparr>globalAccessToken := token, globalTokenExpiresOn := Some expiresOn\<rparr>
           in case globalSqlPool s1 of
                None \<Rightarrow> (AwaitConnect config, s1)
              | Some h \<Rightarrow>
                  if h \<in> live_of (net_trace s1) then (AwaitClose h config, s1)
                  else (AwaitConnect config, s1)))"
| "task_step st r t s = (t, s)"

text \<open>
  Executions in which acquisition calls do not interleave: each call runs to its end
  before the next starts, and between calls the connection may be lost.
\<close>

datatype action = Acquire acquire_env | LoseConnection

fun do_action :: "settings \<Rightarrow> conn_state \<Rightarrow> action \<Rightarrow> conn_state" where
  "do_action st s (Acquire env) = snd (ensureSqlConnection st env s)"
| "do_action st s LoseConnection =
     (case globalSqlPool s of
        None \<Rightarrow> s
      | Some h \<Rightarrow> if h \<in> live_of (net_trace s) then log_event (ConnectionLost h) s else s)"

definition run_actions :: "settings \<Rightarrow> action list \<Rightarrow> conn_state \<Rightarrow> conn_state" where
  "run_actions st acts s = foldl (do_action st) s acts"

text \<open>
  The handler of \<open>SIGTERM\<close>: \<open>if (globalSqlPool) { await globalSqlPool.close(); }
  process.exit(0)\<close>. It closes the stored handle whenever one is stored, connected or
  not. Its value is the exit code, or the error that leaves the handler when the close
  fails.
\<close>

definition sigterm_handler :: "js_error + unit \<Rightarrow> conn_state \<Rightarrow> (js_error + nat) \<times> conn_state" where
  "sigterm_handler close_result s =
     (case globalSqlPool s of
        None \<Rightarrow> (Inr 0, s)
      | Some h \<Rightarrow>
          (case close_result of
             Inl e \<Rightarrow> (Inl e, log_event (CloseFailed h) s)
           | Inr u \<Rightarrow> (Inr 0, log_event (CloseOk h) s)))"

section \<open>Query executors\<close>

text \<open>
  The built-ins of the JavaScript runtime that the executors call are parameters:
  \<open>String.prototype.trim\<close>, \<open>String.prototype.toUpperCase\<close>, whether the number a
  string converts to is greater than zero, and \<open>JSON.stringify\<close> (which may throw).
\<close>

datatype exec_result =
    ReadDataResult bool string "js_value list" nat string
  | ListTableResult bool string "js_value list" nat string
  | DescribeTableResult bool string "js_value list" nat string

record runtime =
  rt_trim :: "string \<Rightarrow> string"
  rt_toUpperCase :: "string \<Rightarrow> string"
  rt_positive :: "string \<Rightarrow> bool"
  rt_stringify :: "exec_result \<Rightarrow> js_error + string"

text \<open>
  What the outside world answers during one executor call: the driver's answer to
  \<open>request.query\<close> (an error, or a result whose \<open>recordset\<close> may be \<open>undefined\<close>) and the
  text of \<open>new Date().toISOString()\<close>.
\<close>

record exec_env =
  ex_query :: "string \<Rightarrow> (string \<times> js_value) list \<Rightarrow> js_error + js_value list option"
  ex_isoNow :: string

fun js_truthy :: "js_value \<Rightarrow> bool" where
  "js_truthy JUndefined = False"
| "js_truthy JNull = False"
| "js_truthy (JBool b) = b"
| "js_truthy (JNum n) = (n \<noteq> 0)"
| "js_truthy (JStr s) = (s \<noteq> [])"
| "js_truthy (JArr xs) = True"
| "js_truthy (JObj fs) = True"

text \<open>
  \<open>const { k } = v\<close>: a type error on \<open>undefined\<close> and \<open>null\<close>; the member of an object;
  \<open>undefined\<close> on every other value (for the three names read here, which no prototype
  defines). The wording of a message that the engine produces is abridged; the code
  only passes it on.
\<close>

fun get_field :: "js_value \<Rightarrow> string \<Rightarrow> js_error + js_value" where
  "get_field JUndefined k = Inl (JsError (''Cannot destructure property '' @ k @ '' of undefined''))"
| "get_field JNull k = Inl (JsError (''Cannot destructure property '' @ k @ '' of null''))"
| "get_field (JObj fs) k = (case map_of fs k of None \<Rightarrow> Inr JUndefined | Some v \<Rightarrow> Inr v)"
| "get_field v k = Inr JUndefined"

text \<open>\<open>request.query(text)\<close> with the bound inputs, then \<open>result.recordset.length\<close>.\<close>

definition run_query ::
  "exec_env \<Rightarrow> string \<Rightarrow> (string \<times> js_value) list \<Rightarrow> conn_state
     \<Rightarrow> (js_error + js_value list) \<times> conn_state" where
  "run_query xenv text inputs s =
     (let s' = log_event (Query text inputs) s in
      case ex_query xenv text inputs of
        Inl e \<Rightarrow> (Inl e, s')
      | Inr None \<Rightarrow> (Inl (JsError ''Cannot read properties of undefined (reading length)''), s')
      | Inr (Some rows) \<Rightarrow> (Inr rows, s'))"

definition executeReadData ::
  "runtime \<Rightarrow> exec_env \<Rightarrow> js_value \<Rightarrow> conn_state \<Rightarrow> (js_error + exec_result) \<times> conn_state" where
  "executeReadData rt xenv args s =
     (case get_field args ''query'' of
        Inl e \<Rightarrow> (Inl e, s)
      | Inr query \<Rightarrow>
          (case query of
             JStr q \<Rightarrow>
               if q = [] then (Inl (JsError ''Query is required and must be a string''), s)
               else if \<not> prefix ''SELECT'' (rt_toUpperCase rt (rt_trim rt q))
               then (Inl (JsError ''Only SELECT queries are allowed''), s)
               else
                 (case run_query xenv q [] s of
                    (Inl e, s') \<Rightarrow> (Inl e, s')
                  | (Inr rows, s') \<Rightarrow>
                      (Inr (ReadDataResult True
                              (''Retrieved '' @ string_of_nat (length rows) @ '' record(s)'')
                              rows (length rows) (ex_isoNow xenv)), s'))
           | _ \<Rightarrow> (Inl (JsError ''Query is required and must be a string''), s)))"

text \<open>The string a value becomes inside a template literal.\<close>

fun join_with :: "string \<Rightarrow> string list \<Rightarrow> string" where
  "join_with sep [] = []"
| "join_with sep [x] = x"
| "join_with sep (x # y # ys) = x @ sep @ join_with sep (y # ys)"

fun js_toString :: "js_value \<Rightarrow> string" where
  "js_toString JUndefined = ''undefined''"
| "js_toString JNull = ''null''"
| "js_toString (JBool b) = (if b then ''true'' else ''false'')"
| "js_toString (JNum n) = string_of_int n"
| "js_toString (JStr s) = s"
| "js_toString (JArr xs) =
     join_with '','' (map (\<lambda>x. if x = JUndefined \<or> x = JNull then [] else js_toString x) xs)"
| "js_toString (JObj fs) = ''[object Object]''"

text \<open>\<open>v > 0\<close> for a member \<open>length\<close> read from a JSON object.\<close>

fun js_gt_zero :: "runtime \<Rightarrow> js_value \<Rightarrow> bool" where
  "js_gt_zero rt JUndefined = False"
| "js_gt_zero rt JNull = False"
| "js_gt_zero rt (JBool b) = b"
| "js_gt_zero rt (JNum n) = (n > 0)"
| "js_gt_zero rt v = rt_positive rt (js_toString v)"

text \<open>
  \<open>parameters && parameters.length > 0 ? `AND TABLE_SCHEMA IN (${parameters.map(...).join(", ")})` : ""\<close>.
  Only an array has \<open>map\<close>; a non-empty string, or an object whose \<open>length\<close> is
  positive, passes the test and then fails with a type error.
\<close>

fun schemaFilter :: "runtime \<Rightarrow> js_value \<Rightarrow> js_error + string" where
  "schemaFilter rt (JArr xs) =
     (if xs = [] then Inr []
      else Inr (''AND TABLE_SCHEMA IN ('' @
                 join_with '', '' (map (\<lambda>p. [CHR 0x27] @ js_toString p @ [CHR 0x27]) xs) @ '')''))"
| "schemaFilter rt (JStr s) =
     (if s = [] then Inr [] else Inl (JsError ''parameters.map is not a function''))"
| "schemaFilter rt (JObj fs) =
     (case map_of fs ''length'' of
        None \<Rightarrow> Inr []
      | Some v \<Rightarrow>
          if js_gt_zero rt v then Inl (JsError ''parameters.map is not a function'') else Inr [])"
| "schemaFilter rt v = Inr []"

definition executeListTable ::
  "runtime \<Rightarrow> exec_env \<Rightarrow> js_value \<Rightarrow> conn_state \<Rightarrow> (js_error + exec_result) \<times> conn_state" where
  "executeListTable rt xenv args s =
     (case get_field (if js_truthy args then args else JObj []) ''parameters'' of
        Inl e \<Rightarrow> (Inl e, s)
      | Inr parameters \<Rightarrow>
          (case schemaFilter rt parameters of
             Inl e \<Rightarrow> (Inl e, s)
           | Inr filter_text \<Rightarrow>
               (case run_query xenv
                       (''SELECT TABLE_SCHEMA + '.' + TABLE_NAME as [table] FROM INFORMATION_SCHEMA.TABLES WHERE TABLE_TYPE = 'BASE TABLE' ''
                          @ filter_text @ '' ORDER BY TABLE_SCHEMA, TABLE_NAME'') [] s of
                  (Inl e, s') \<Rightarrow> (Inl e, s')
                | (Inr rows, s') \<Rightarrow>
                    (Inr (ListTableResult True ''List tables executed successfully''
                            rows (length rows) (ex_isoNow xenv)), s'))))"

definition executeDescribeTable ::
  "runtime \<Rightarrow> exec_env \<Rightarrow> js_value \<Rightarrow> conn_state \<Rightarrow> (js_error + exec_result) \<times> conn_state" where
  "executeDescribeTable rt xenv args s =
     (case get_field args ''tableName'' of
        Inl e \<Rightarrow> (Inl e, s)
      | Inr tableName \<Rightarrow>
          (case tableName of
             JStr t \<Rightarrow>
               if t = [] then (Inl (JsError ''tableName is required and must be a string''), s)
               else
                 (case run_query xenv
                         ''SELECT COLUMN_NAME as name, DATA_TYPE as type FROM INFORMATION_SCHEMA.COLUMNS WHERE TABLE_NAME = @tableName''
                         [(''tableName'', JStr t)] s of
                    (Inl e, s') \<Rightarrow> (Inl e, s')
                  | (Inr rows, s') \<Rightarrow>
                      (Inr (DescribeTableResult True t rows (length rows) (ex_isoNow xenv)), s'))
           | _ \<Rightarrow> (Inl (JsError ''tableName is required and must be a string''), s)))"


section \<open>Protocol router\<close>

text \<open>
  \<open>try { body } catch (error) { handler }\<close> over a computation that threads the shared
  state: what the body wrote before it threw stays written.
\<close>

definition try_catch ::
  "(conn_state \<Rightarrow> (js_error + 'a) \<times> conn_state)
     \<Rightarrow> (js_error \<Rightarrow> conn_state \<Rightarrow> (js_error + 'a) \<times> conn_state)
     \<Rightarrow> conn_state \<Rightarrow> (js_error + 'a) \<times> conn_state" where
  "try_catch body handler s =
     (case body s of
        (Inl e, s') \<Rightarrow> handler e s'
      | (Inr v, s') \<Rightarrow> (Inr v, s'))"

record call_request =
  tool_name :: string
  tool_arguments :: js_value

record tool_result =
  content_text :: string
  isError :: bool

text \<open>\<open>JSON.stringify(result, null, 2)\<close> wrapped into the content of a successful result.\<close>

definition render_result ::
  "runtime \<Rightarrow> (js_error + exec_result) \<times> conn_state \<Rightarrow> (js_error + tool_result) \<times> conn_state" where
  "render_result rt rs =
     (case rs of
        (Inl e, s) \<Rightarrow> (Inl e, s)
      | (Inr result, s) \<Rightarrow>
          (case rt_stringify rt result of
             Inl e \<Rightarrow> (Inl e, s)
           | Inr text \<Rightarrow> (Inr \<lparr>content_text = text, isError = False\<rparr>, s)))"

definition callTool_body ::
  "settings \<Rightarrow> acquire_env \<Rightarrow> runtime \<Rightarrow> exec_env \<Rightarrow> call_request \<Rightarrow> conn_state
     \<Rightarrow> (js_error + tool_result) \<times> conn_state" where
  "callTool_body st aenv rt xenv req s =
     (case ensureSqlConnection st aenv s of
        (Inl e, s1) \<Rightarrow> (Inl e, s1)
      | (Inr u, s1) \<Rightarrow>
          if tool_name req = ''read_data''
          then render_result rt (executeReadData rt xenv (tool_arguments req) s1)
          else if tool_name req = ''list_table''
          then render_result rt (executeListTable rt xenv (tool_arguments req) s1)
          else if tool_name req = ''describe_table''
          then render_result rt (executeDescribeTable rt xenv (tool_arguments req) s1)
          else (Inr \<lparr>content_text = ''Unknown tool: '' @ tool_name req, isError = True\<rparr>, s1))"

text \<open>
  The handler of \<open>CallToolRequestSchema\<close>. Its value is \<open>Inr\<close> a result when it returns
  and \<open>Inl\<close> an error when an exception leaves it.
\<close>

definition callToolHandler ::
  "settings \<Rightarrow> acquire_env \<Rightarrow> runtime \<Rightarrow> exec_env \<Rightarrow> call_request \<Rightarrow> conn_state
     \<Rightarrow> (js_error + tool_result) \<times> conn_state" where
  "callToolHandler st aenv rt xenv req =
     try_catch (callTool_body st aenv rt xenv req)
       (\<lambda>error s. (Inr \<lparr>content_text = ''Error: '' @ error_text error, isError = True\<rparr>, s))"

subsection \<open>The REST variant of read-query (server.ts)\<close>

record rest_reply =
  rest_status :: nat
  rest_success :: bool
  rest_error :: "string option"
  rest_message :: "string option"
  rest_data :: "js_value list option"
  rest_recordCount :: "nat option"

definition rest_failure :: "nat \<Rightarrow> string \<Rightarrow> rest_reply" where
  "rest_failure code msg =
     \<lparr>rest_status = code, rest_success = False, rest_error = Some msg,
      rest_message = None, rest_data = None, rest_recordCount = None\<rparr>"

definition rest_read_data_body ::
  "settings \<Rightarrow> acquire_env \<Rightarrow> runtime \<Rightarrow> exec_env \<Rightarrow> js_value \<Rightarrow> conn_state
     \<Rightarrow> (js_error + rest_reply) \<times> conn_state" where
  "rest_read_data_body st aenv rt xenv body s =
     (case ensureSqlConnection st aenv s of
        (Inl e, s1) \<Rightarrow> (Inl e, s1)
      | (Inr u, s1) \<Rightarrow>
          (case get_field body ''query'' of
             Inl e \<Rightarrow> (Inl e, s1)
           | Inr query \<Rightarrow>
               (case query of
                  JStr q \<Rightarrow>
                    if q = [] then (Inr (rest_failure 400 ''Query is required and must be a string''), s1)
                    else if \<not> prefix ''SELECT'' (rt_toUpperCase rt (rt_trim rt q))
                    then (Inr (rest_failure 400 ''Only SELECT queries are allowed''), s1)
                    else
                      (case run_query xenv q [] s1 of
                         (Inl e, s') \<Rightarrow> (Inl e, s')
                       | (Inr rows, s') \<Rightarrow>
                           (Inr \<lparr>rest_status = 200, rest_success = True, rest_error = None,
                                 rest_message = Some (''Retrieved '' @ string_of_nat (length rows) @ '' record(s)''),
                                 rest_data = Some rows, rest_recordCount = Some (length rows)\<rparr>, s'))
                | _ \<Rightarrow> (Inr (rest_failure 400 ''Query is required and must be a string''), s1))))"

definition rest_read_data ::
  "settings \<Rightarrow> acquire_env \<Rightarrow> runtime \<Rightarrow> exec_env \<Rightarrow> js_value \<Rightarrow> conn_state
     \<Rightarrow> (js_error + rest_reply) \<times> conn_state" where
  "rest_read_data st aenv rt xenv body =
     try_catch (rest_read_data_body st aenv rt xenv body)
       (\<lambda>error s. (Inr (rest_failure 500 (error_text error)), s))"

section \<open>Session registry and the SSE endpoints\<close>

text \<open>
  \<open>transports\<close> maps a session identifier to its transport. \<open>GET /sse\<close> stores the new
  transport under its identifier and registers a close callback that deletes that
  identifier; \<open>Map.delete\<close> of an absent key changes nothing.
\<close>

definition sse_get :: "(string \<rightharpoonup> 't) \<Rightarrow> string \<Rightarrow> 't \<Rightarrow> (string \<rightharpoonup> 't)" where
  "sse_get transports sessionId transport = transports(sessionId \<mapsto> transport)"

definition transport_onclose :: "(string \<rightharpoonup> 't) \<Rightarrow> string \<Rightarrow> (string \<rightharpoonup> 't)" where
  "transport_onclose transports sessionId = transports(sessionId := None)"

datatype 't registry_event = Established string 't | TransportClosed string

fun registry_step :: "(string \<rightharpoonup> 't) \<Rightarrow> 't registry_event \<Rightarrow> (string \<rightharpoonup> 't)" where
  "registry_step transports (Established sid t) = sse_get transports sid t"
| "registry_step transports (TransportClosed sid) = transport_onclose transports sid"

definition run_registry :: "'t registry_event list \<Rightarrow> (string \<rightharpoonup> 't) \<Rightarrow> (string \<rightharpoonup> 't)" where
  "run_registry evs transports = foldl registry_step transports evs"

text \<open>
  \<open>POST /sse\<close>. The second component lists the keys looked up in \<open>transports\<close>.
\<close>

datatype 't post_outcome = PostRespond nat string | Forwarded 't js_value

definition sse_post ::
  "(string \<rightharpoonup> 't) \<Rightarrow> request \<Rightarrow> js_value \<Rightarrow> 't post_outcome \<times> string list" where
  "sse_post transports req body =
     (case js_or (hdr_x_mcp_session_id req) (query_sessionId req) of
        None \<Rightarrow> (PostRespond 400 ''Missing session ID'', [])
      | Some sessionId \<Rightarrow>
          if sessionId = [] then (PostRespond 400 ''Missing session ID'', [])
          else
            (case transports sessionId of
               None \<Rightarrow> (PostRespond 404 ''Session not found'', [sessionId])
             | Some transport \<Rightarrow> (Forwarded transport body, [sessionId])))"


section \<open>Properties: auxiliary definitions and example inputs\<close>

text \<open>The condition of the read-query check in the words of the specification.\<close>

definition begins_with_SELECT :: "runtime \<Rightarrow> string \<Rightarrow> bool" where
  "begins_with_SELECT rt q = prefix ''SELECT'' (rt_toUpperCase rt (rt_trim rt q))"

text \<open>The error-flagged result of the protocol router.\<close>

definition error_result :: "js_error \<Rightarrow> tool_result" where
  "error_result e = \<lparr>content_text = ''Error: '' @ error_text e, isError = True\<rparr>"

text \<open>
  The invariant of the shared connection state when calls do not interleave: only the
  stored handle can be live, handles are numbered below the length of the trace, a
  closed handle is not live and was closed once, and at no earlier point were two
  handles live.
\<close>

definition trace_inv :: "handle option \<Rightarrow> net_event list \<Rightarrow> bool" where
  "trace_inv pool tr \<longleftrightarrow>
     live_of tr \<subseteq> set_option pool \<and>
     (\<forall>h \<in> live_of tr. h < length tr) \<and>
     (\<forall>h. CloseOk h \<in> set tr \<longrightarrow> h < length tr \<and> h \<notin> live_of tr) \<and>
     (\<forall>h. count_list tr (CloseOk h) \<le> 1) \<and>
     (\<forall>p. prefix p tr \<longrightarrow> card (live_of p) \<le> 1)"

definition conn_inv :: "conn_state \<Rightarrow> bool" where
  "conn_inv s = trace_inv (globalSqlPool s) (net_trace s)"

text \<open>
  A runtime for evaluating examples: \<open>trim\<close> and \<open>toUpperCase\<close> as they act on ASCII
  strings.
\<close>

definition is_space :: "char \<Rightarrow> bool" where
  "is_space c = (c \<in> set [CHR 0x09, CHR 0x0A, CHR 0x0B, CHR 0x0C, CHR 0x0D, CHR '' ''])"

definition ascii_trim :: "string \<Rightarrow> string" where
  "ascii_trim s = rev (dropWhile is_space (rev (dropWhile is_space s)))"

definition ascii_toUpperCase :: "string \<Rightarrow> string" where
  "ascii_toUpperCase s =
     map (\<lambda>c. let n = (of_char c :: nat) in if 97 \<le> n \<and> n \<le> 122 then char_of (n - 32) else c) s"

definition ascii_runtime :: runtime where
  "ascii_runtime = \<lparr>rt_trim = ascii_trim, rt_toUpperCase = ascii_toUpperCase,
     rt_positive = (\<lambda>s. False), rt_stringify = (\<lambda>r. Inr ''{}'')\<rparr>"

definition example_exec_env :: exec_env where
  "example_exec_env = \<lparr>ex_query = (\<lambda>text inputs. Inr (Some [JObj [(''n'', JNum 1)]])),
     ex_isoNow = ''2025-01-01T00:00:00.000Z''\<rparr>"

definition example_settings :: settings where
  "example_settings = \<lparr>SERVER_NAME = Some ''srv'', DATABASE_NAME = Some ''db'',
     TRUST_SERVER_CERTIFICATE_true = False, CONNECTION_TIMEOUT_secs = 30\<rparr>"

definition token_until :: "int \<Rightarrow> js_error + access_token option" where
  "token_until t = Inr (Some \<lparr>at_token = ''token'', at_expiresOnTimestamp = t\<rparr>)"

text \<open>The start-up call at time 0: a token valid for one hour, the connection opens.\<close>

definition startup_env :: acquire_env where
  "startup_env = \<lparr>env_now = 0, env_getToken = token_until 3600000, env_now_config = 0,
     env_close = Inr (), env_connect = (\<lambda>c. Inr ())\<rparr>"

definition startup_state :: conn_state where
  "startup_state = snd (ensureSqlConnection example_settings startup_env init_conn)"

text \<open>A call one second later, well inside the validity of the token.\<close>

definition early_env :: acquire_env where
  "early_env = \<lparr>env_now = 1000, env_getToken = token_until 7200000, env_now_config = 1000,
     env_close = Inr (), env_connect = (\<lambda>c. Inr ())\<rparr>"

text \<open>
  Calls at 3500 s, inside the two-minute margin before the expiry at 3600 s: one in
  which everything succeeds, one in which the close of the old handle fails, one in
  which the open of the new handle fails.
\<close>

definition refresh_env :: acquire_env where
  "refresh_env = \<lparr>env_now = 3500000, env_getToken = token_until 7200000, env_now_config = 3500100,
     env_close = Inr (), env_connect = (\<lambda>c. Inr ())\<rparr>"

definition failing_close_env :: acquire_env where
  "failing_close_env = refresh_env\<lparr>env_close := Inl (JsError ''close failed'')\<rparr>"

definition failing_connect_env :: acquire_env where
  "failing_connect_env = refresh_env\<lparr>env_connect := (\<lambda>c. Inl (JsError ''connect failed''))\<rparr>"



text \<open>
  Start-up, then a refresh whose open fails; and start-up, then the loss of the
  connection.
\<close>

definition failed_refresh_state :: conn_state where
  "failed_refresh_state =
     run_actions example_settings [Acquire startup_env, Acquire failing_connect_env] init_conn"

definition lost_state :: conn_state where
  "lost_state = run_actions example_settings [Acquire startup_env, LoseConnection] init_conn"

text \<open>Requests for the access guard and the SSE endpoints.\<close>

definition rate_limited_config :: guard_config where
  "rate_limited_config = \<lparr>cfg_API_KEY = Some ''secret'', cfg_ENABLE_RATE_LIMITING = Some ''true'',
     cfg_maxRequests = 1, cfg_windowMs = 60000\<rparr>"

definition health_request :: request where
  "health_request = \<lparr>req_path = ''/health'', hdr_x_api_key = None, hdr_authorization = None,
     hdr_x_mcp_session_id = None, query_apiKey = None, query_sessionId = None\<rparr>"

definition query_key_request :: request where
  "query_key_request = \<lparr>req_path = ''/sse'', hdr_x_api_key = None, hdr_authorization = None,
     hdr_x_mcp_session_id = None, query_apiKey = Some ''secret'', query_sessionId = None\<rparr>"

definition post_request :: "string option \<Rightarrow> string option \<Rightarrow> request" where
  "post_request hdr qry = \<lparr>req_path = ''/sse'', hdr_x_api_key = None, hdr_authorization = None,
     hdr_x_mcp_session_id = hdr, query_apiKey = None, query_sessionId = qry\<rparr>"

definition example_transports :: "string \<rightharpoonup> nat" where
  "example_transports = [''s1'' \<mapsto> 7]"


section \<open>Properties of the access guard\<close>

lemma apiKeyAuth_health: "req_path req = ''/health'' \<Longrightarrow> apiKeyAuth k req = Next"
  by (simp add: apiKeyAuth_def)

text \<open>
  Claim C4 says that a request to the health-check path skips every stage of the access
  guard: it is never counted against a rate-limit window and is never answered with
  401, 403 or 429. The credential check does skip it (\<open>apiKeyAuth_health\<close>), but the rate
  limiter has no such exemption. With a limit of one request per minute, the first
  health request at time 0 is counted under the key \<open>anonymous\<close>, and the second, one
  second later, is answered with 429.
\<close>

theorem health_check_is_rate_limited:
  "fst (access_guard rate_limited_config Map.empty 0 health_request) = Next \<and>
   snd (access_guard rate_limited_config Map.empty 0 health_request) ''anonymous''
     = Some \<lparr>rr_count = 1, rr_resetTime = 60000\<rparr> \<and>
   fst (access_guard rate_limited_config
          (snd (access_guard rate_limited_config Map.empty 0 health_request)) 1000 health_request)
     = Respond \<lparr>res_status = 429, res_error = ''Too Many Requests'',
         res_message = ''Rate limit exceeded. Try again in 59 seconds.'',
         res_retryAfter = Some 59\<rparr>"
  by code_simp

text \<open>
  Claim C6 says that the rate limiter counts a request under the credential it presents
  through any of the three channels, and under the anonymous key only when it presents
  none. A request that presents the configured key in the \<open>apiKey\<close> query parameter
  passes the credential check with that key, but the rate limiter reads the two
  headers only and counts it under \<open>anonymous\<close>.
\<close>

theorem rate_key_ignores_query_parameter:
  "auth_requestKey query_key_request = Some ''secret'' \<and>
   apiKeyAuth (Some ''secret'') query_key_request = Next \<and>
   rate_key query_key_request = ''anonymous'' \<and>
   snd (rateLimiter 100 60000 Map.empty 0 query_key_request) ''secret'' = None \<and>
   snd (rateLimiter 100 60000 Map.empty 0 query_key_request) ''anonymous''
     = Some \<lparr>rr_count = 1, rr_resetTime = 60000\<rparr>"
  by (simp add: auth_requestKey_def apiKeyAuth_def query_key_request_def rate_key_def
        rateLimiter_def js_or_def truthy_str_def Let_def)

section \<open>Properties of the connection manager\<close>

lemma live_of_Nil: "live_of [] = {}"
  by (simp add: live_of_def)

lemma live_of_snoc: "live_of (tr @ [e]) = apply_event (live_of tr) e"
  by (simp add: live_of_def)

lemma live_of_append: "live_of (xs @ ys) = foldl apply_event (live_of xs) ys"
  by (simp add: live_of_def)

lemma startup_state_eq:
  "startup_state = \<lparr>globalSqlPool = Some 1, globalAccessToken = Some ''token'',
     globalTokenExpiresOn = Some (Date 3600000), net_trace = [GetToken, ConnectOk 1]\<rparr>"
  by code_simp










subsection \<open>Calls that do not interleave\<close>

lemma prefix_snoc_iff: "prefix p (tr @ [e]) \<longleftrightarrow> prefix p tr \<or> p = tr @ [e]"
  by (metis prefix_snoc)

lemma card_subset_option: "L \<subseteq> set_option pool \<Longrightarrow> card L \<le> 1"
proof -
  assume a: "L \<subseteq> set_option pool"
  have "finite (set_option pool)" by (cases pool) auto
  then have "card L \<le> card (set_option pool)" using a by (rule card_mono)
  also have "\<dots> \<le> 1" by (cases pool) auto
  finally show ?thesis .
qed

lemma trace_inv_init: "trace_inv None []"
  by (simp add: trace_inv_def live_of_Nil)

lemma trace_inv_neutral:
  assumes "trace_inv pool tr" and "apply_event (live_of tr) e = live_of tr"
    and "\<forall>h. e \<noteq> CloseOk h"
  shows "trace_inv pool (tr @ [e])"
  using assms unfolding trace_inv_def
  by (auto simp: live_of_snoc prefix_snoc_iff less_Suc_eq dest: card_subset_option)

lemma trace_inv_close:
  assumes "trace_inv pool tr" and "h \<in> live_of tr"
  shows "trace_inv pool (tr @ [CloseOk h])"
proof -
  have fresh: "CloseOk h \<notin> set tr" using assms by (auto simp: trace_inv_def)
  then have c0: "count_list tr (CloseOk h) = 0" by (simp add: count_list_0_iff)
  have sub: "live_of tr - {h} \<subseteq> set_option pool" using assms by (auto simp: trace_inv_def)
  show ?thesis
    using assms c0 card_subset_option[OF sub] unfolding trace_inv_def
    by (auto simp: live_of_snoc prefix_snoc_iff less_Suc_eq)
qed

lemma trace_inv_lost:
  assumes "trace_inv pool tr"
  shows "trace_inv pool (tr @ [ConnectionLost h])"
proof -
  have sub: "live_of tr - {h} \<subseteq> set_option pool" using assms by (auto simp: trace_inv_def)
  show ?thesis
    using assms card_subset_option[OF sub] unfolding trace_inv_def
    by (auto simp: live_of_snoc prefix_snoc_iff less_Suc_eq)
qed

lemma trace_inv_open:
  assumes "trace_inv pool tr" and "live_of tr = {}"
  shows "trace_inv (Some (length tr)) (tr @ [ConnectOk (length tr)])"
  using assms unfolding trace_inv_def
  by (auto simp: live_of_snoc prefix_snoc_iff less_Suc_eq)

lemma close_old_inv:
  assumes "conn_inv s"
  shows "conn_inv (snd (close_old env s))"
    and "fst (close_old env s) = Inr () \<Longrightarrow> live_of (net_trace (snd (close_old env s))) = {}"
proof -
  show "conn_inv (snd (close_old env s))"
    using assms
    by (auto simp: close_old_def conn_inv_def log_event_def
             intro: trace_inv_close trace_inv_neutral split: option.splits sum.splits)
  show "fst (close_old env s) = Inr () \<Longrightarrow> live_of (net_trace (snd (close_old env s))) = {}"
    using assms
    by (auto simp: close_old_def conn_inv_def trace_inv_def log_event_def live_of_snoc
             split: option.splits sum.splits if_splits)
qed

lemma open_new_inv:
  assumes "conn_inv s" and "live_of (net_trace s) = {}"
  shows "conn_inv (snd (open_new env config s))"
  using assms
  by (auto simp: open_new_def conn_inv_def log_event_def Let_def
           intro: trace_inv_open trace_inv_neutral split: sum.splits)

lemma conn_inv_set_token:
  "conn_inv (s\<lparr>globalAccessToken := t, globalTokenExpiresOn := x\<rparr>) = conn_inv s"
  by (simp add: conn_inv_def)

lemma conn_inv_get_token: "conn_inv s \<Longrightarrow> conn_inv (log_event GetToken s)"
  by (auto simp: conn_inv_def log_event_def intro: trace_inv_neutral)

lemma ensureSqlConnection_inv:
  assumes "conn_inv s"
  shows "conn_inv (snd (ensureSqlConnection st env s))"
proof (cases "token_fresh (env_now env) s")
  case True
  then show ?thesis using assms by (simp add: ensureSqlConnection_def)
next
  case False
  show ?thesis
  proof (cases "createSqlConfig st (env_now_config env) (env_getToken env)")
    case (Inl e)
    then show ?thesis
      using False assms by (simp add: ensureSqlConnection_def Let_def conn_inv_get_token)
  next
    case (Inr triple)
    obtain config token expiresOn where t: "triple = (config, token, expiresOn)"
      by (cases triple) auto
    let ?s1 = "(log_event GetToken s)\<lparr>globalAccessToken := token, globalTokenExpiresOn := Some expiresOn\<rparr>"
    have inv1: "conn_inv ?s1"
      using assms by (simp add: conn_inv_set_token conn_inv_get_token)
    show ?thesis
    proof (cases "fst (close_old env ?s1)")
      case (Inl e)
      then show ?thesis
        using False Inr t close_old_inv(1)[OF inv1, of env]
        by (auto simp: ensureSqlConnection_def Let_def split: prod.splits)
    next
      case r: (Inr u)
      then have "live_of (net_trace (snd (close_old env ?s1))) = {}"
        using close_old_inv(2)[OF inv1, of env] by simp
      then have "conn_inv (snd (open_new env config (snd (close_old env ?s1))))"
        using close_old_inv(1)[OF inv1, of env] by (rule open_new_inv[rotated])
      then show ?thesis
        using False Inr t r
        by (auto simp: ensureSqlConnection_def Let_def split: prod.splits)
    qed
  qed
qed

lemma do_action_inv: "conn_inv s \<Longrightarrow> conn_inv (do_action st s a)"
proof (cases a)
  case (Acquire env)
  assume "conn_inv s"
  then show ?thesis using Acquire by (simp add: ensureSqlConnection_inv)
next
  case LoseConnection
  assume "conn_inv s"
  then show ?thesis using LoseConnection
    by (auto simp: conn_inv_def log_event_def intro: trace_inv_lost split: option.splits)
qed

lemma run_actions_inv: "conn_inv s \<Longrightarrow> conn_inv (run_actions st acts s)"
  unfolding run_actions_def
  by (induction acts arbitrary: s) (simp_all add: do_action_inv)

lemma conn_inv_init: "conn_inv init_conn"
  by (simp add: conn_inv_def init_conn_def trace_inv_init)

lemma count_list_prefix: "prefix p tr \<Longrightarrow> count_list p x \<le> count_list tr x"
  by (auto simp: prefix_def)

text \<open>
  Acquisition calls that do not overlap keep the invariant: at every point of the
  trace at most one handle is live, and no handle is closed twice. A call closes the
  stored handle only after testing that it is connected.
\<close>

lemma sequential_acquire_single_handle:
  "prefix p (net_trace (run_actions st acts init_conn)) \<Longrightarrow>
     card (live_of p) \<le> 1 \<and> (\<forall>h. count_list p (CloseOk h) \<le> 1)"
proof -
  assume p: "prefix p (net_trace (run_actions st acts init_conn))"
  have inv: "conn_inv (run_actions st acts init_conn)"
    using conn_inv_init by (rule run_actions_inv)
  then have "card (live_of p) \<le> 1"
    using p by (simp add: conn_inv_def trace_inv_def)
  moreover have "\<forall>h. count_list p (CloseOk h) \<le> 1"
  proof
    fix h
    have "count_list p (CloseOk h) \<le> count_list (net_trace (run_actions st acts init_conn)) (CloseOk h)"
      using p by (rule count_list_prefix)
    also have "\<dots> \<le> 1" using inv by (simp add: conn_inv_def trace_inv_def)
    finally show "count_list p (CloseOk h) \<le> 1" .
  qed
  ultimately show "card (live_of p) \<le> 1 \<and> (\<forall>h. count_list p (CloseOk h) \<le> 1)" by simp
qed

lemma failed_refresh_state_eq:
  "failed_refresh_state = \<lparr>globalSqlPool = Some 1, globalAccessToken = Some ''token'',
     globalTokenExpiresOn = Some (Date 7200000),
     net_trace = [GetToken, ConnectOk 1, GetToken, CloseOk 1, ConnectFailed]\<rparr>"
  by code_simp

lemma lost_state_eq:
  "lost_state = \<lparr>globalSqlPool = Some 1, globalAccessToken = Some ''token'',
     globalTokenExpiresOn = Some (Date 3600000),
     net_trace = [GetToken, ConnectOk 1, ConnectionLost 1]\<rparr>"
  by code_simp

text \<open>
  Claim C3 says that at every point of every execution at most one handle is live and
  no handle is ever closed twice. The shutdown handler closes the stored handle without
  the test for \<open>connected\<close> that \<open>ensureSqlConnection\<close> makes before it closes. After a
  refresh that closed handle 1 and then failed to open a new connection, the variable
  still holds handle 1, which is not connected; the shutdown handler then closes
  handle 1 a second time. No call overlaps another in this execution.
\<close>

theorem shutdown_closes_handle_twice:
  "globalSqlPool failed_refresh_state = Some 1 \<and>
   net_trace failed_refresh_state = [GetToken, ConnectOk 1, GetToken, CloseOk 1, ConnectFailed] \<and>
   1 \<notin> live_of (net_trace failed_refresh_state) \<and>
   sigterm_handler (Inr ()) failed_refresh_state
     = (Inr 0, failed_refresh_state\<lparr>net_trace :=
          [GetToken, ConnectOk 1, GetToken, CloseOk 1, ConnectFailed, CloseOk 1]\<rparr>) \<and>
   count_list (net_trace (snd (sigterm_handler (Inr ()) failed_refresh_state))) (CloseOk 1) = 2"
  by code_simp

text \<open>
  Claim C5 as stated: in every refresh in which an old handle exists, the old handle is
  closed before the new one is opened, and an error raised while closing is swallowed.
  Two things differ in the code. The close is awaited with no handler around it: when
  it fails, the call fails with that error and no connection is opened. And the close
  is made only when the old handle reports connected: after the connection was lost,
  the old handle 1 is replaced by handle 4 without being closed.
\<close>

theorem close_failure_fails_acquire:
  "\<not> token_fresh (env_now failing_close_env) startup_state \<and>
   globalSqlPool startup_state = Some 1 \<and> 1 \<in> live_of (net_trace startup_state) \<and>
   fst (ensureSqlConnection example_settings failing_close_env startup_state)
     = Inl (JsError ''close failed'') \<and>
   net_trace (snd (ensureSqlConnection example_settings failing_close_env startup_state))
     = net_trace startup_state @ [GetToken, CloseFailed 1] \<and>
   \<not> token_fresh (env_now early_env) lost_state \<and>
   globalSqlPool lost_state = Some 1 \<and>
   fst (ensureSqlConnection example_settings early_env lost_state) = Inr () \<and>
   globalSqlPool (snd (ensureSqlConnection example_settings early_env lost_state)) = Some 4 \<and>
   net_trace (snd (ensureSqlConnection example_settings early_env lost_state))
     = [GetToken, ConnectOk 1, ConnectionLost 1, GetToken, ConnectOk 4]"
  by code_simp

text \<open>
  Claim C5, amended: for every refresh (the token provider has answered) in which an old
  handle exists: when the old handle is reported connected, it is closed before the new
  one is opened (the open is attempted only after the close has succeeded), and an
  error raised while closing is not swallowed: the call fails with that error and no
  open is attempted; when the old handle is reported not connected, it is not closed
  and the open is attempted directly.
\<close>

theorem refresh_closes_before_open:
  assumes "\<not> token_fresh (env_now env) s" and "globalSqlPool s = Some h"
    and "env_getToken env = Inr a"
  shows "(h \<in> live_of (net_trace s) \<longrightarrow>
            (\<forall>e. env_close env = Inl e \<longrightarrow>
               fst (ensureSqlConnection st env s) = Inl e \<and>
               net_trace (snd (ensureSqlConnection st env s)) = net_trace s @ [GetToken, CloseFailed h])
          \<and> (env_close env = Inr () \<longrightarrow>
               (\<exists>ev. net_trace (snd (ensureSqlConnection st env s)) = net_trace s @ [GetToken, CloseOk h, ev] \<and>
                     (ev = ConnectFailed \<or> ev = ConnectOk (length (net_trace s) + 2)))))
       \<and> (h \<notin> live_of (net_trace s) \<longrightarrow>
            (\<exists>ev. net_trace (snd (ensureSqlConnection st env s)) = net_trace s @ [GetToken, ev] \<and>
                  (ev = ConnectFailed \<or> ev = ConnectOk (length (net_trace s) + 1))))"
  using assms
  by (auto simp: ensureSqlConnection_def createSqlConfig_def close_old_def open_new_def log_event_def
        Let_def live_of_snoc split: sum.splits prod.splits)

theorem refresh_closes_before_open_witness:
  "\<not> token_fresh (env_now refresh_env) startup_state \<and>
   globalSqlPool startup_state = Some 1 \<and> 1 \<in> live_of (net_trace startup_state) \<and>
   env_close refresh_env = Inr () \<and>
   (\<exists>ev. net_trace (snd (ensureSqlConnection example_settings refresh_env startup_state))
            = net_trace startup_state @ [GetToken, CloseOk 1, ev] \<and>
         (ev = ConnectFailed \<or> ev = ConnectOk (length (net_trace startup_state) + 2))) \<and>
   \<not> token_fresh (env_now early_env) lost_state \<and>
   globalSqlPool lost_state = Some 1 \<and> 1 \<notin> live_of (net_trace lost_state) \<and>
   (\<exists>ev. net_trace (snd (ensureSqlConnection example_settings early_env lost_state))
            = net_trace lost_state @ [GetToken, ev] \<and>
         (ev = ConnectFailed \<or> ev = ConnectOk (length (net_trace lost_state) + 1)))"
proof -
  have h1: "\<not> token_fresh (env_now refresh_env) startup_state" by code_simp
  have h2: "globalSqlPool startup_state = Some 1" by (simp add: startup_state_eq)
  have h3: "1 \<in> live_of (net_trace startup_state)" by (simp add: startup_state_eq live_of_def)
  have h4: "env_getToken refresh_env = Inr (Some \<lparr>at_token = ''token'', at_expiresOnTimestamp = 7200000\<rparr>)"
    by (simp add: refresh_env_def token_until_def)
  have h5: "env_close refresh_env = Inr ()" by (simp add: refresh_env_def)
  have k1: "\<not> token_fresh (env_now early_env) lost_state" by code_simp
  have k2: "globalSqlPool lost_state = Some 1" by (simp add: lost_state_eq)
  have k3: "1 \<notin> live_of (net_trace lost_state)" by (simp add: lost_state_eq live_of_def)
  have k4: "env_getToken early_env = Inr (Some \<lparr>at_token = ''token'', at_expiresOnTimestamp = 7200000\<rparr>)"
    by (simp add: early_env_def token_until_def)
  from refresh_closes_before_open[OF h1 h2 h4, of example_settings] h3 h5
  have a: "\<exists>ev. net_trace (snd (ensureSqlConnection example_settings refresh_env startup_state))
            = net_trace startup_state @ [GetToken, CloseOk 1, ev] \<and>
         (ev = ConnectFailed \<or> ev = ConnectOk (length (net_trace startup_state) + 2))"
    by blast
  from refresh_closes_before_open[OF k1 k2 k4, of example_settings] k3
  have b: "\<exists>ev. net_trace (snd (ensureSqlConnection example_settings early_env lost_state))
            = net_trace lost_state @ [GetToken, ev] \<and>
         (ev = ConnectFailed \<or> ev = ConnectOk (length (net_trace lost_state) + 1))"
    by blast
  show ?thesis using h1 h2 h3 h5 k1 k2 k3 a b by blast
qed

text \<open>
  Claim C10: on the refresh path (the token provider has answered), the shared token and
  expiry hold the fresh values whatever happens afterwards, because they are written
  before the old handle is closed and the new one is opened: when the call resumes
  with the token it stores both and only then suspends on the close or on the open.
  Whenever the call fails, the stored handle is the previous one; in particular, when
  the open fails (after the close, if any, succeeded) the state pairs the fresh token
  and expiry with the previous handle, which is not connected.
\<close>

theorem refresh_overwrites_token_first:
  assumes "\<not> token_fresh (env_now env) s"
    and "createSqlConfig st (env_now_config env) (env_getToken env) = Inr (config, token, expiresOn)"
  shows "globalAccessToken (snd (ensureSqlConnection st env s)) = token
       \<and> globalTokenExpiresOn (snd (ensureSqlConnection st env s)) = Some expiresOn
       \<and> (\<forall>e. fst (ensureSqlConnection st env s) = Inl e \<longrightarrow>
             globalSqlPool (snd (ensureSqlConnection st env s)) = globalSqlPool s)
       \<and> (\<forall>e. env_connect env config = Inl e \<and> (pool_connected s \<longrightarrow> env_close env = Inr ()) \<longrightarrow>
             fst (ensureSqlConnection st env s) = Inl e \<and>
             globalSqlPool (snd (ensureSqlConnection st env s)) = globalSqlPool s \<and>
             \<not> pool_connected (snd (ensureSqlConnection st env s)))
       \<and> (\<forall>e. pool_connected s \<and> env_close env = Inl e \<longrightarrow>
             fst (ensureSqlConnection st env s) = Inl e)
       \<and> (case task_step st (TokenResolved (env_getToken env) (env_now_config env)) AwaitToken
                 (log_event GetToken s) of
            (t, s1) \<Rightarrow>
              globalAccessToken s1 = token \<and> globalTokenExpiresOn s1 = Some expiresOn \<and>
              net_trace s1 = net_trace s @ [GetToken] \<and>
              (t = AwaitConnect config \<or> (\<exists>h. t = AwaitClose h config)))"
  using assms
  by (auto simp: ensureSqlConnection_def close_old_def open_new_def log_event_def pool_connected_def
        Let_def live_of_append split: sum.splits prod.splits option.splits)

theorem refresh_overwrites_token_first_witness:
  "\<not> token_fresh (env_now failing_connect_env) startup_state \<and>
   globalAccessToken startup_state = Some ''token'' \<and>
   globalTokenExpiresOn startup_state = Some (Date 3600000) \<and>
   fst (ensureSqlConnection example_settings failing_connect_env startup_state)
     = Inl (JsError ''connect failed'') \<and>
   globalAccessToken (snd (ensureSqlConnection example_settings failing_connect_env startup_state))
     = Some ''token'' \<and>
   globalTokenExpiresOn (snd (ensureSqlConnection example_settings failing_connect_env startup_state))
     = Some (Date 7200000) \<and>
   globalSqlPool (snd (ensureSqlConnection example_settings failing_connect_env startup_state))
     = Some 1 \<and>
   \<not> pool_connected (snd (ensureSqlConnection example_settings failing_connect_env startup_state))"
proof -
  let ?config = "\<lparr>cfg_server = Some ''srv'', cfg_database = Some ''db'', cfg_encrypt = True,
      cfg_trustServerCertificate = False, cfg_token = Some ''token'', cfg_connectionTimeout = 30000\<rparr>"
  have h1: "\<not> token_fresh (env_now failing_connect_env) startup_state" by code_simp
  have h2: "createSqlConfig example_settings (env_now_config failing_connect_env)
              (env_getToken failing_connect_env) = Inr (?config, Some ''token'', Date 7200000)"
    by (simp add: createSqlConfig_def failing_connect_env_def refresh_env_def token_until_def
          example_settings_def newDate_def)
  have h3: "env_connect failing_connect_env ?config = Inl (JsError ''connect failed'') \<and>
            (pool_connected startup_state \<longrightarrow> env_close failing_connect_env = Inr ())"
    by (simp add: failing_connect_env_def refresh_env_def)
  have s: "globalAccessToken startup_state = Some ''token'' \<and>
           globalTokenExpiresOn startup_state = Some (Date 3600000) \<and>
           globalSqlPool startup_state = Some 1"
    by (simp add: startup_state_eq)
  from refresh_overwrites_token_first[OF h1 h2] h3 s h1
  show ?thesis by auto
qed


section \<open>Properties of the query executors and the protocol router\<close>

text \<open>
  Claim C1: the read-query executor rejects, before any database call, every input
  whose \<open>query\<close> is absent, not a string, or does not begin with \<open>SELECT\<close> after trimming
  and upper-casing; a string that does begin with \<open>SELECT\<close> passes the check and is
  sent to the database verbatim. The four cases below are exhaustive. In the first
  three the executor throws and the state, with its trace of network events, is
  unchanged: \<open>query\<close> is not a non-empty string; \<open>query\<close> is a non-empty string without
  the prefix; the argument value itself is \<open>undefined\<close> or \<open>null\<close>, where reading \<open>query\<close>
  throws. In the fourth, a non-empty string with the prefix (an empty string has none
  after trimming and upper-casing), exactly one query is issued, its text is the
  string as given, and the result is what the driver answers.
\<close>

theorem executeReadData_select_gate:
  "(\<forall>v. get_field args ''query'' = Inr v \<and> (\<forall>q. v = JStr q \<longrightarrow> q = []) \<longrightarrow>
        executeReadData rt xenv args s = (Inl (JsError ''Query is required and must be a string''), s))
   \<and> (\<forall>q. get_field args ''query'' = Inr (JStr q) \<and> q \<noteq> [] \<and> \<not> begins_with_SELECT rt q \<longrightarrow>
        executeReadData rt xenv args s = (Inl (JsError ''Only SELECT queries are allowed''), s))
   \<and> (\<forall>e. get_field args ''query'' = Inl e \<longrightarrow> executeReadData rt xenv args s = (Inl e, s))
   \<and> (\<forall>q. get_field args ''query'' = Inr (JStr q) \<and> q \<noteq> [] \<and> begins_with_SELECT rt q \<longrightarrow>
        snd (executeReadData rt xenv args s) = log_event (Query q []) s \<and>
        fst (executeReadData rt xenv args s) =
          (case ex_query xenv q [] of
             Inl e \<Rightarrow> Inl e
           | Inr None \<Rightarrow> Inl (JsError ''Cannot read properties of undefined (reading length)'')
           | Inr (Some rows) \<Rightarrow>
               Inr (ReadDataResult True (''Retrieved '' @ string_of_nat (length rows) @ '' record(s)'')
                      rows (length rows) (ex_isoNow xenv))))"
  by (auto simp: executeReadData_def begins_with_SELECT_def run_query_def Let_def
           split: js_value.splits sum.splits option.splits prod.splits)

theorem executeReadData_select_gate_witness:
  "executeReadData ascii_runtime example_exec_env (JObj []) init_conn
     = (Inl (JsError ''Query is required and must be a string''), init_conn) \<and>
   \<not> begins_with_SELECT ascii_runtime ''drop table t'' \<and>
   executeReadData ascii_runtime example_exec_env (JObj [(''query'', JStr ''drop table t'')]) init_conn
     = (Inl (JsError ''Only SELECT queries are allowed''), init_conn) \<and>
   executeReadData ascii_runtime example_exec_env JUndefined init_conn
     = (Inl (JsError ''Cannot destructure property query of undefined''), init_conn) \<and>
   begins_with_SELECT ascii_runtime ''  select 1'' \<and>
   snd (executeReadData ascii_runtime example_exec_env (JObj [(''query'', JStr ''  select 1'')]) init_conn)
     = log_event (Query ''  select 1'' []) init_conn"
proof -
  have n: "\<not> begins_with_SELECT ascii_runtime ''drop table t''" by code_simp
  have y: "begins_with_SELECT ascii_runtime ''  select 1''" by code_simp
  have a: "executeReadData ascii_runtime example_exec_env (JObj []) init_conn
     = (Inl (JsError ''Query is required and must be a string''), init_conn)"
    using executeReadData_select_gate[of "JObj []" ascii_runtime example_exec_env init_conn]
    by simp
  have b: "executeReadData ascii_runtime example_exec_env (JObj [(''query'', JStr ''drop table t'')]) init_conn
     = (Inl (JsError ''Only SELECT queries are allowed''), init_conn)"
    using executeReadData_select_gate[of "JObj [(''query'', JStr ''drop table t'')]" ascii_runtime
            example_exec_env init_conn] n
    by simp
  have c: "executeReadData ascii_runtime example_exec_env JUndefined init_conn
     = (Inl (JsError ''Cannot destructure property query of undefined''), init_conn)"
    using executeReadData_select_gate[of JUndefined ascii_runtime example_exec_env init_conn]
    by simp
  have d: "snd (executeReadData ascii_runtime example_exec_env (JObj [(''query'', JStr ''  select 1'')]) init_conn)
     = log_event (Query ''  select 1'' []) init_conn"
    using executeReadData_select_gate[of "JObj [(''query'', JStr ''  select 1'')]" ascii_runtime
            example_exec_env init_conn] y
    by simp
  show ?thesis using n y a b c d by blast
qed

text \<open>
  The REST endpoint acquires the connection before it checks the query. Once the
  acquisition has returned, the same check answers 400 without issuing a query; when
  the acquisition fails, the answer is 500 with the message of that error, whatever
  the query.
\<close>

lemma rest_read_data_select_gate:
  assumes "ensureSqlConnection st aenv s = (Inr (), s1)"
    and "get_field body ''query'' = Inr v"
  shows "(\<forall>q. v = JStr q \<longrightarrow> q = []) \<Longrightarrow>
           rest_read_data st aenv rt xenv body s
             = (Inr (rest_failure 400 ''Query is required and must be a string''), s1)"
    and "v = JStr q \<Longrightarrow> q \<noteq> [] \<Longrightarrow> \<not> begins_with_SELECT rt q \<Longrightarrow>
           rest_read_data st aenv rt xenv body s
             = (Inr (rest_failure 400 ''Only SELECT queries are allowed''), s1)"
    and "v = JStr q \<Longrightarrow> q \<noteq> [] \<Longrightarrow> begins_with_SELECT rt q \<Longrightarrow>
           snd (rest_read_data st aenv rt xenv body s) = log_event (Query q []) s1"
  using assms
  by (auto simp: rest_read_data_def rest_read_data_body_def try_catch_def begins_with_SELECT_def
        run_query_def Let_def split: js_value.splits sum.splits option.splits prod.splits)

lemma rest_read_data_acquire_failure:
  "ensureSqlConnection st aenv s = (Inl e, s1) \<Longrightarrow>
     rest_read_data st aenv rt xenv body s = (Inr (rest_failure 500 (error_text e)), s1)"
  by (simp add: rest_read_data_def rest_read_data_body_def try_catch_def)

text \<open>
  Claim C9: the handler of an operation invocation always returns a result; no exception
  leaves it. When the connection cannot be acquired, or when the executor that the name
  selects throws (a failed check or a failed query alike), the result is flagged as an
  error and carries the message of the error. A name that selects no executor yields a
  result flagged as an error as well. The handler has no access to the session registry,
  so the session stays registered.
\<close>

theorem callTool_errors_become_results:
  "(\<exists>r s'. callToolHandler st aenv rt xenv req s = (Inr r, s'))
   \<and> (\<forall>e. fst (ensureSqlConnection st aenv s) = Inl e \<longrightarrow>
         fst (callToolHandler st aenv rt xenv req s) = Inr (error_result e))
   \<and> (\<forall>s1 e. ensureSqlConnection st aenv s = (Inr (), s1) \<and>
         (tool_name req = ''read_data'' \<and> fst (executeReadData rt xenv (tool_arguments req) s1) = Inl e \<or>
          tool_name req = ''list_table'' \<and> fst (executeListTable rt xenv (tool_arguments req) s1) = Inl e \<or>
          tool_name req = ''describe_table'' \<and> fst (executeDescribeTable rt xenv (tool_arguments req) s1) = Inl e) \<longrightarrow>
         fst (callToolHandler st aenv rt xenv req s) = Inr (error_result e))
   \<and> (tool_name req \<noteq> ''read_data'' \<and> tool_name req \<noteq> ''list_table'' \<and>
       tool_name req \<noteq> ''describe_table'' \<longrightarrow>
         (\<exists>r. fst (callToolHandler st aenv rt xenv req s) = Inr r \<and> isError r))"
  by (auto simp: callToolHandler_def try_catch_def callTool_body_def render_result_def error_result_def
           split: prod.splits sum.splits)

theorem callTool_errors_become_results_witness:
  "fst (ensureSqlConnection example_settings failing_connect_env init_conn)
     = Inl (JsError ''connect failed'') \<and>
   fst (callToolHandler example_settings failing_connect_env ascii_runtime example_exec_env
          \<lparr>tool_name = ''read_data'', tool_arguments = JObj [(''query'', JStr ''select 1'')]\<rparr> init_conn)
     = Inr \<lparr>content_text = ''Error: connect failed'', isError = True\<rparr> \<and>
   ensureSqlConnection example_settings startup_env init_conn = (Inr (), startup_state) \<and>
   fst (executeReadData ascii_runtime example_exec_env (JObj [(''query'', JStr ''drop table t'')]) startup_state)
     = Inl (JsError ''Only SELECT queries are allowed'') \<and>
   fst (callToolHandler example_settings startup_env ascii_runtime example_exec_env
          \<lparr>tool_name = ''read_data'', tool_arguments = JObj [(''query'', JStr ''drop table t'')]\<rparr> init_conn)
     = Inr \<lparr>content_text = ''Error: Only SELECT queries are allowed'', isError = True\<rparr> \<and>
   (\<exists>r. fst (callToolHandler example_settings startup_env ascii_runtime example_exec_env
               \<lparr>tool_name = ''drop_table'', tool_arguments = JUndefined\<rparr> init_conn) = Inr r \<and> isError r)"
proof -
  let ?bad = "\<lparr>tool_name = ''read_data'', tool_arguments = JObj [(''query'', JStr ''drop table t'')]\<rparr>"
  let ?good = "\<lparr>tool_name = ''read_data'', tool_arguments = JObj [(''query'', JStr ''select 1'')]\<rparr>"
  let ?unknown = "\<lparr>tool_name = ''drop_table'', tool_arguments = JUndefined\<rparr>"
  have f: "fst (ensureSqlConnection example_settings failing_connect_env init_conn)
     = Inl (JsError ''connect failed'')" by code_simp
  have ok: "ensureSqlConnection example_settings startup_env init_conn = (Inr (), startup_state)"
    by code_simp
  have v: "fst (executeReadData ascii_runtime example_exec_env (JObj [(''query'', JStr ''drop table t'')]) startup_state)
     = Inl (JsError ''Only SELECT queries are allowed'')" by code_simp
  have a: "fst (callToolHandler example_settings failing_connect_env ascii_runtime example_exec_env ?good init_conn)
     = Inr \<lparr>content_text = ''Error: connect failed'', isError = True\<rparr>"
    using callTool_errors_become_results[of example_settings failing_connect_env ascii_runtime
            example_exec_env ?good init_conn] f
    by (simp add: error_result_def)
  have b: "fst (callToolHandler example_settings startup_env ascii_runtime example_exec_env ?bad init_conn)
     = Inr \<lparr>content_text = ''Error: Only SELECT queries are allowed'', isError = True\<rparr>"
    using callTool_errors_become_results[of example_settings startup_env ascii_runtime
            example_exec_env ?bad init_conn] ok v
    by (simp add: error_result_def)
  have c: "\<exists>r. fst (callToolHandler example_settings startup_env ascii_runtime example_exec_env
               ?unknown init_conn) = Inr r \<and> isError r"
    using callTool_errors_become_results[of example_settings startup_env ascii_runtime
            example_exec_env ?unknown init_conn]
    by simp
  show ?thesis using f ok v a b c by blast
qed

section \<open>Properties of the session registry and the SSE endpoints\<close>

text \<open>
  Claim C7: for every message posted to the submission endpoint, when neither the
  \<open>x-mcp-session-id\<close> header nor the \<open>sessionId\<close> query parameter is present the answer
  is 400 and no key is looked up in the registry; when an identifier is presented (the
  header, or else the query parameter, as a non-empty string) and the registry does not
  hold it, the answer is 404; and the body is forwarded to a transport exactly when the
  presented identifier resolves to that transport.
\<close>

theorem sse_post_session_resolution:
  "(hdr_x_mcp_session_id req = None \<and> query_sessionId req = None \<longrightarrow>
      sse_post transports req body = (PostRespond 400 ''Missing session ID'', []))
   \<and> (\<forall>sid. js_or (hdr_x_mcp_session_id req) (query_sessionId req) = Some sid \<and> sid \<noteq> [] \<and>
          transports sid = None \<longrightarrow>
        sse_post transports req body = (PostRespond 404 ''Session not found'', [sid]))
   \<and> (\<forall>t b. fst (sse_post transports req body) = Forwarded t b \<longleftrightarrow>
        b = body \<and> (\<exists>sid. js_or (hdr_x_mcp_session_id req) (query_sessionId req) = Some sid \<and>
                      sid \<noteq> [] \<and> transports sid = Some t))"
  by (auto simp: sse_post_def js_or_def truthy_str_def split: option.splits if_splits)

theorem sse_post_session_resolution_witness:
  "sse_post example_transports (post_request None None) (JObj [])
     = (PostRespond 400 ''Missing session ID'', []) \<and>
   js_or (hdr_x_mcp_session_id (post_request None (Some ''s2''))) 
         (query_sessionId (post_request None (Some ''s2''))) = Some ''s2'' \<and>
   example_transports ''s2'' = None \<and>
   sse_post example_transports (post_request None (Some ''s2'')) (JObj [])
     = (PostRespond 404 ''Session not found'', [''s2'']) \<and>
   example_transports ''s1'' = Some 7 \<and>
   fst (sse_post example_transports (post_request (Some ''s1'') None) (JObj [])) = Forwarded 7 (JObj [])"
proof -
  have k2: "js_or (hdr_x_mcp_session_id (post_request None (Some ''s2'')))
         (query_sessionId (post_request None (Some ''s2''))) = Some ''s2''"
    by (simp add: post_request_def js_or_def truthy_str_def)
  have k1: "js_or (hdr_x_mcp_session_id (post_request (Some ''s1'') None))
         (query_sessionId (post_request (Some ''s1'') None)) = Some ''s1''"
    by (simp add: post_request_def js_or_def truthy_str_def)
  have t2: "example_transports ''s2'' = None" by (simp add: example_transports_def)
  have t1: "example_transports ''s1'' = Some 7" by (simp add: example_transports_def)
  have a: "sse_post example_transports (post_request None None) (JObj [])
     = (PostRespond 400 ''Missing session ID'', [])"
    using sse_post_session_resolution[of "post_request None None" example_transports "JObj []"]
    by (simp add: post_request_def)
  have b: "sse_post example_transports (post_request None (Some ''s2'')) (JObj [])
     = (PostRespond 404 ''Session not found'', [''s2''])"
    using sse_post_session_resolution[of "post_request None (Some ''s2'')" example_transports "JObj []"]
      k2 t2
    by simp
  have c: "fst (sse_post example_transports (post_request (Some ''s1'') None) (JObj [])) = Forwarded 7 (JObj [])"
    using sse_post_session_resolution[of "post_request (Some ''s1'') None" example_transports "JObj []"]
      k1 t1
    by simp
  show ?thesis using k2 t2 t1 a b c by blast
qed

lemma run_registry_stays_absent:
  "reg sid = None \<Longrightarrow> \<forall>t. Established sid t \<notin> set evs \<Longrightarrow> run_registry evs reg sid = None"
proof (induction evs arbitrary: reg)
  case Nil
  then show ?case by (simp add: run_registry_def)
next
  case (Cons e evs)
  have "registry_step reg e sid = None"
    using Cons.prems by (cases e) (auto simp: sse_get_def transport_onclose_def)
  moreover have "\<forall>t. Established sid t \<notin> set evs" using Cons.prems by simp
  ultimately have "run_registry evs (registry_step reg e) sid = None" by (rule Cons.IH)
  then show ?case by (simp add: run_registry_def)
qed

text \<open>
  Claim C8: once a session has been established and the close callback of its transport
  has fired, the registry no longer holds its identifier, whatever other sessions were
  established or closed before, in between and afterwards (the identifier itself is
  not established again: identifiers are generated fresh), so a message posted with
  that identifier is answered 404. Removal is idempotent: the callback on an
  identifier the registry does not hold leaves the registry as it is, and firing it
  twice is the same as firing it once.
\<close>

theorem closed_session_not_found:
  "((\<forall>t'. Established sid t' \<notin> set later) \<longrightarrow>
      run_registry (earlier @ [Established sid t] @ between @ [TransportClosed sid] @ later) reg sid = None
      \<and> (sid \<noteq> [] \<longrightarrow>
           sse_post (run_registry (earlier @ [Established sid t] @ between @ [TransportClosed sid] @ later) reg)
             (post_request (Some sid) None) body
           = (PostRespond 404 ''Session not found'', [sid])))
   \<and> transport_onclose (transport_onclose reg sid) sid = transport_onclose reg sid
   \<and> (reg sid = None \<longrightarrow> transport_onclose reg sid = reg)"
proof (intro conjI impI)
  assume later: "\<forall>t'. Established sid t' \<notin> set later"
  let ?closed = "run_registry (earlier @ [Established sid t] @ between @ [TransportClosed sid]) reg"
  let ?final = "run_registry (earlier @ [Established sid t] @ between @ [TransportClosed sid] @ later) reg"
  have "?closed sid = None"
    by (simp add: run_registry_def transport_onclose_def)
  then have "run_registry later ?closed sid = None"
    using later by (rule run_registry_stays_absent)
  then show absent: "?final sid = None"
    by (simp add: run_registry_def)
  assume "sid \<noteq> []"
  then show "sse_post ?final (post_request (Some sid) None) body
           = (PostRespond 404 ''Session not found'', [sid])"
    using absent by (simp add: sse_post_def post_request_def js_or_def truthy_str_def)
next
  show "transport_onclose (transport_onclose reg sid) sid = transport_onclose reg sid"
    by (simp add: transport_onclose_def)
next
  assume "reg sid = None"
  then show "transport_onclose reg sid = reg"
    by (auto simp: transport_onclose_def)
qed

theorem closed_session_not_found_witness:
  "run_registry ([Established ''s0'' 3] @ [Established ''s9'' 4] @ [] @ [TransportClosed ''s9'']
       @ [TransportClosed ''s0'', Established ''s5'' 6]) example_transports ''s9'' = None \<and>
   sse_post (run_registry ([Established ''s0'' 3] @ [Established ''s9'' 4] @ [] @ [TransportClosed ''s9'']
       @ [TransportClosed ''s0'', Established ''s5'' 6]) example_transports)
     (post_request (Some ''s9'') None) (JObj [])
     = (PostRespond 404 ''Session not found'', [''s9'']) \<and>
   example_transports ''s9'' = None \<and>
   transport_onclose example_transports ''s9'' = example_transports"
proof -
  have l: "\<forall>t'. Established ''s9'' t' \<notin> set [TransportClosed ''s0'', Established ''s5'' (6::nat)]"
    by simp
  have n: "''s9'' \<noteq> []" by simp
  have t2: "example_transports ''s9'' = None" by (simp add: example_transports_def)
  from closed_session_not_found[where sid="''s9''" and later="[TransportClosed ''s0'', Established ''s5'' 6]"
         and earlier="[Established ''s0'' 3]" and t=4 and between="[]" and reg=example_transports
         and body="JObj []"]
    l n t2
  show ?thesis by blast
qed

end
